theory Spec2Isabelle
  imports Main "HOL-Library.Word"
begin

section \<open>Package auth: the three-legged OAuth2 flow (threelegged.go)\<close>

subsection \<open>Data\<close>

text \<open>
  \<open>url.Values\<close> is a Go map from a key to a list of values. The code only uses
  \<open>Set\<close>, \<open>Get\<close>, \<open>Encode\<close> and iteration over the keys, so an association
  list read through \<open>map_of\<close> is enough.
\<close>

type_synonym Values = "(string \<times> string list) list"

fun Values_Set :: "Values \<Rightarrow> string \<Rightarrow> string \<Rightarrow> Values" where
  "Values_Set [] k x = [(k, [x])]"
| "Values_Set ((k', xs) # m) k x =
     (if k' = k then (k, [x]) # m else (k', xs) # Values_Set m k x)"

definition Values_Get :: "Values \<Rightarrow> string \<Rightarrow> string" where
  "Values_Get m k = (case map_of m k of None \<Rightarrow> [] | Some [] \<Rightarrow> [] | Some (x # _) \<Rightarrow> x)"

text \<open>\<open>Style\<close> is declared elsewhere in the package; the three values the code names.\<close>

datatype Style = StyleUnknown | StyleInParams | StyleInHeader

record Request =
  Method :: string
  URL :: string
  ReqBody :: string
  ReqHeader :: "(string \<times> string) list"
  BasicAuth :: "(string \<times> string) option"

text \<open>
  An HTTP response as \<open>fetchToken\<close> reads it: the status, the headers and the body
  stream, whose reading either fails (with the message of the failure) or gives the bytes.
\<close>

record Response =
  StatusCode :: int
  Header :: "(string \<times> string) list"
  BodyStream :: "string + string"

definition Header_Get :: "(string \<times> string) list \<Rightarrow> string \<Rightarrow> string" where
  "Header_Get h k = (case map_of h k of None \<Rightarrow> [] | Some x \<Rightarrow> x)"

record PKCEConfig =
  Challenge :: string
  ChallengeMethod :: string
  Verifier :: string

text \<open>
  \<open>AuthorizationHandler\<close>: from the auth code URL to a code, a state and an error.
  A Go func value may be nil, hence the option in \<open>Handler\<close>.
\<close>

type_synonym AuthorizationHandler = "string \<Rightarrow> string \<times> string \<times> string option"

record AuthorizationHandlerOptions =
  Handler :: "AuthorizationHandler option"
  State :: string
  PKCEConfig :: "PKCEConfig option"

record Options3LO =
  ClientID :: string
  ClientSecret :: string
  AuthURL :: string
  TokenURL :: string
  RedirectURL :: string
  Scopes :: "string list"
  URLParams :: Values
  Client :: "(Request \<Rightarrow> string + Response) option"
  AuthStyle :: Style
  AuthHandlerOpts :: "AuthorizationHandlerOptions option"

text \<open>Go's \<open>int\<close> on a 64-bit platform; \<open>time.Duration\<close> is an int64 of nanoseconds.\<close>

record tokenJSON =
  AccessToken :: string
  TokenType :: string
  RefreshToken :: string
  ExpiresIn :: "64 word"
  ErrorCode :: string
  ErrorDescription :: string
  ErrorURI :: string

text \<open>
  The expiry is either the zero \<open>time.Time\<close> or \<open>time.Now().Add(d)\<close> for a
  duration \<open>d\<close>, kept symbolic in the clock.
\<close>

datatype Time = ZeroTime | NowAdd "64 word"

datatype MetaValue = MetaStrings "string list" | MetaJSON string

record Token =
  Value :: string
  Type :: string
  Expiry :: Time
  Metadata :: "(string \<times> MetaValue) list"

text \<open>The package's \<open>Error\<close>: the raw response, its body and the OAuth error fields.\<close>

record Error =
  Response :: Response
  Body :: string
  code :: string
  description :: string
  uri :: string

text \<open>
  Go error values: \<open>errors.New\<close> and \<open>fmt.Errorf\<close> without \<open>%w\<close> give a plain
  message, \<open>fmt.Errorf\<close> with \<open>%w\<close> wraps an error, a library returns its own
  error, and \<open>*Error\<close> is the package's typed error.
\<close>

datatype error =
    ErrorsNew string
  | Wrapped string error
  | LibError string
  | AuthError Error

fun carriesResponse :: "error \<Rightarrow> Response \<Rightarrow> bool" where
  "carriesResponse (AuthError e) r = (Response e = r)"
| "carriesResponse _ r = False"

text \<open>
  What the code takes from outside this file: three constants of the package, the
  standard library (\<open>net/url\<close>, \<open>net/http\<close>, \<open>mime\<close>, \<open>encoding/json\<close>,
  \<open>strconv\<close>) and the default HTTP client. They are parameters of the model.
\<close>

record Env =
  codeChallengeKey :: string
  codeChallengeMethodKey :: string
  codeVerifierKey :: string
  Encode :: "Values \<Rightarrow> string"
  QueryEscape :: "string \<Rightarrow> string"
  NewRequest :: "string \<Rightarrow> string \<Rightarrow> string \<Rightarrow> string + Request"
  CloneDefaultClient :: "Request \<Rightarrow> string + Response"
  ParseMediaType :: "string \<Rightarrow> string"
  ParseQuery :: "string \<Rightarrow> string + Values"
  UnmarshalTokenJSON :: "string \<Rightarrow> string + tokenJSON"
  UnmarshalMetadata :: "string \<Rightarrow> (string \<times> MetaValue) list"
  Atoi :: "string \<Rightarrow> 64 word"

text \<open>The calls a flow makes to the outside, in order.\<close>

datatype Call = CallHandler string | CallExchange string | CallDo Request

subsection \<open>Operations\<close>

definition expiry :: "tokenJSON \<Rightarrow> Time" where
  "expiry e = (let v = ExpiresIn e in if v \<noteq> 0 then NowAdd (v * 1000000000) else ZeroTime)"

definition client :: "Env \<Rightarrow> Options3LO \<Rightarrow> Request \<Rightarrow> string + Response" where
  "client env c = (case Client c of Some cl \<Rightarrow> cl | None \<Rightarrow> CloneDefaultClient env)"

fun Join :: "string list \<Rightarrow> string \<Rightarrow> string" where
  "Join [] sep = []"
| "Join [x] sep = x"
| "Join (x # y # xs) sep = x @ sep @ Join (y # xs) sep"

fun setSelf :: "Values \<Rightarrow> string list \<Rightarrow> Values" where
  "setSelf v [] = v"
| "setSelf v (k # ks) = setSelf (Values_Set v k (Values_Get v k)) ks"

definition authCodeURL :: "Env \<Rightarrow> Options3LO \<Rightarrow> string \<Rightarrow> Values \<Rightarrow> string" where
  "authCodeURL env c state vals =
    (let v0 = [(''response_type'', [''code'']), (''client_id'', [ClientID c])];
         v1 = (if RedirectURL c \<noteq> [] then Values_Set v0 ''redirect_uri'' (RedirectURL c) else v0);
         v2 = (if length (Scopes c) > 0 then Values_Set v1 ''scope'' (Join (Scopes c) '' '') else v1);
         v3 = (if state \<noteq> [] then Values_Set v2 ''state'' state else v2);
         v4 = (case AuthHandlerOpts c of
                 None \<Rightarrow> v3
               | Some aho \<Rightarrow>
                   (let w = (case PKCEConfig aho of
                               None \<Rightarrow> v3
                             | Some p \<Rightarrow> if Challenge p \<noteq> []
                                 then Values_Set v3 (codeChallengeKey env) (Challenge p) else v3)
                    in (case PKCEConfig aho of
                          None \<Rightarrow> w
                        | Some p \<Rightarrow> if ChallengeMethod p \<noteq> []
                            then Values_Set w (codeChallengeMethodKey env) (ChallengeMethod p)
                            else w)));
         v5 = setSelf v4 (map fst vals)
     in AuthURL c @ (if CHR ''?'' \<in> set (AuthURL c) then ''&'' else ''?'') @ Encode env v5)"

text \<open>
  The switch of \<open>fetchToken\<close> on the media type: the error fields, the token and the
  refresh token parsed from the body, or the error the switch returns with.
\<close>

definition parseBody ::
  "Env \<Rightarrow> Response \<Rightarrow> string \<Rightarrow> error + (Error \<times> Token \<times> string)" where
  "parseBody env r body =
    (let failureStatus = (StatusCode r < 200 \<or> StatusCode r > 299);
         tokError = \<lparr>Response = r, Body = body, code = [], description = [], uri = []\<rparr>;
         content = ParseMediaType env (Header_Get (Header r) ''Content-Type'')
     in if content = ''application/x-www-form-urlencoded'' \<or> content = ''text/plain'' then
          (case ParseQuery env body of
             Inl e \<Rightarrow>
               if failureStatus then Inl (AuthError tokError)
               else Inl (Wrapped ''auth: cannot parse response: '' (LibError e))
           | Inr vals \<Rightarrow>
               (let expires = Atoi env (Values_Get vals ''expires_in'')
                in Inr (tokError\<lparr>code := Values_Get vals ''error'',
                                  description := Values_Get vals ''error_description'',
                                  uri := Values_Get vals ''error_uri''\<rparr>,
                        \<lparr>Value = Values_Get vals ''access_token'',
                         Type = Values_Get vals ''token_type'',
                         Expiry = (if expires \<noteq> 0 then NowAdd (expires * 1000000000)
                                   else ZeroTime),
                         Metadata = map (\<lambda>(k, v). (k, MetaStrings v)) vals\<rparr>,
                        Values_Get vals ''refresh_token'')))
        else
          (case UnmarshalTokenJSON env body of
             Inl e \<Rightarrow>
               if failureStatus then Inl (AuthError tokError)
               else Inl (Wrapped ''auth: cannot parse json: '' (LibError e))
           | Inr tj \<Rightarrow>
               Inr (tokError\<lparr>code := ErrorCode tj,
                              description := ErrorDescription tj,
                              uri := ErrorURI tj\<rparr>,
                    \<lparr>Value = AccessToken tj,
                     Type = TokenType tj,
                     Expiry = expiry tj,
                     Metadata = UnmarshalMetadata env body\<rparr>,
                    RefreshToken tj)))"

text \<open>\<open>io.ReadAll(io.LimitReader(r.Body, 1<<20))\<close>\<close>

definition readBody :: "Response \<Rightarrow> string + string" where
  "readBody r = (case BodyStream r of Inl e \<Rightarrow> Inl e | Inr s \<Rightarrow> Inr (take (2 ^ 20) s))"

text \<open>\<open>fetchToken\<close> from the moment the response \<open>r\<close> has arrived.\<close>

definition tokenFromResponse ::
  "Env \<Rightarrow> Response \<Rightarrow> Token option \<times> string \<times> error option" where
  "tokenFromResponse env r =
    (case readBody r of
       Inl e \<Rightarrow> (None, [], Some (Wrapped ''auth: cannot fetch token: '' (LibError e)))
     | Inr body \<Rightarrow>
         (case parseBody env r body of
            Inl err \<Rightarrow> (None, [], Some err)
          | Inr (tokError, token, refreshToken) \<Rightarrow>
              if (StatusCode r < 200 \<or> StatusCode r > 299) \<or> code tokError \<noteq> [] then
                (None, refreshToken, Some (AuthError tokError))
              else if Value token = [] then
                (None, refreshToken,
                 Some (ErrorsNew ''auth: server response missing access_token''))
              else (Some token, refreshToken, None)))"

text \<open>The request \<open>fetchToken\<close> builds: the form values and the headers.\<close>

definition withClientInfo :: "Options3LO \<Rightarrow> Values \<Rightarrow> Values" where
  "withClientInfo c v =
    (if AuthStyle c = StyleInParams then
       (let v1 = (if ClientID c \<noteq> [] then Values_Set v ''client_id'' (ClientID c) else v)
        in if ClientSecret c \<noteq> [] then Values_Set v1 ''client_secret'' (ClientSecret c)
           else v1)
     else v)"

definition withHeaders :: "Env \<Rightarrow> Options3LO \<Rightarrow> Request \<Rightarrow> Request" where
  "withHeaders env c req =
    (let req1 = req\<lparr>ReqHeader :=
                   (''Content-Type'', ''application/x-www-form-urlencoded'')
                   # filter (\<lambda>(k, _). k \<noteq> ''Content-Type'') (ReqHeader req)\<rparr>
     in if AuthStyle c = StyleInHeader then
          req1\<lparr>BasicAuth := Some (QueryEscape env (ClientID c),
                                   QueryEscape env (ClientSecret c))\<rparr>
        else req1)"

definition fetchToken ::
  "Env \<Rightarrow> Options3LO \<Rightarrow> Values \<Rightarrow> (Token option \<times> string \<times> error option) \<times> Call list" where
  "fetchToken env c v =
    (if AuthStyle c = StyleUnknown then
       ((None, [], Some (ErrorsNew ''auth: missing required field AuthStyle'')), [])
     else
       (case NewRequest env ''POST'' (TokenURL c) (Encode env (withClientInfo c v)) of
          Inl e \<Rightarrow> ((None, [], Some (LibError e)), [])
        | Inr req0 \<Rightarrow>
            (let req = withHeaders env c req0
             in (case client env c req of
                   Inl e \<Rightarrow> ((None, [], Some (LibError e)), [CallDo req])
                 | Inr r \<Rightarrow> (tokenFromResponse env r, [CallDo req])))))"

fun setParams :: "Values \<Rightarrow> Values \<Rightarrow> string list \<Rightarrow> Values" where
  "setParams v params [] = v"
| "setParams v params (k # ks) = setParams (Values_Set v k (Values_Get params k)) params ks"

definition exchange ::
  "Env \<Rightarrow> Options3LO \<Rightarrow> string \<Rightarrow> (Token option \<times> string \<times> error option) \<times> Call list" where
  "exchange env c cd =
    (let v0 = [(''grant_type'', [''authorization_code'']), (''code'', [cd])];
         v1 = (if RedirectURL c \<noteq> [] then Values_Set v0 ''redirect_uri'' (RedirectURL c) else v0);
         v2 = (case AuthHandlerOpts c of
                 None \<Rightarrow> v1
               | Some aho \<Rightarrow>
                   (case PKCEConfig aho of
                      None \<Rightarrow> v1
                    | Some p \<Rightarrow> if Verifier p \<noteq> []
                        then Values_Set v1 (codeVerifierKey env) (Verifier p) else v1));
         v3 = setParams v2 (URLParams c) (map fst (URLParams c))
     in fetchToken env c v3)"

record tokenProviderWithHandler =
  opts :: Options3LO
  state :: string

text \<open>
  \<open>tokenProviderWithHandler.Token\<close>. The result is \<open>None\<close> where the Go code panics
  (a nil \<open>AuthHandlerOpts\<close> or a nil \<open>Handler\<close>).
\<close>

definition Token ::
  "Env \<Rightarrow> tokenProviderWithHandler \<Rightarrow> ((Token option \<times> error option) \<times> Call list) option" where
  "Token env tp =
    (let url = authCodeURL env (opts tp) (state tp) []
     in (case AuthHandlerOpts (opts tp) of
           None \<Rightarrow> None
         | Some aho \<Rightarrow>
             (case Handler aho of
                None \<Rightarrow> None
              | Some h \<Rightarrow>
                  (case h url of
                     (cd, st, Some err) \<Rightarrow> Some ((None, Some (LibError err)), [CallHandler url])
                   | (cd, st, None) \<Rightarrow>
                       if st \<noteq> state tp then
                         Some ((None, Some (ErrorsNew ''auth: state mismatch in 3-legged-OAuth flow'')),
                               [CallHandler url])
                       else
                         (case exchange env (opts tp) cd of
                            ((tok, _, err), calls) \<Rightarrow>
                              Some ((tok, err), CallHandler url # CallExchange cd # calls))))))"

subsection \<open>A concrete environment and provider\<close>

text \<open>
  A token endpoint that always answers with the response \<open>r\<close>, and a JSON decoder that
  knows the two bodies below. They serve to run the definitions on concrete inputs.
\<close>

definition emptyTokenBody :: string where
  \<open>emptyTokenBody = ''{"access_token":"","token_type":"bearer"}''\<close>

definition goodTokenBody :: string where
  \<open>goodTokenBody = ''{"access_token":"abc","token_type":"bearer"}''\<close>

definition testRequest :: "string \<Rightarrow> string \<Rightarrow> string \<Rightarrow> string + Request" where
  "testRequest m u b = Inr \<lparr>Method = m, URL = u, ReqBody = b, ReqHeader = [], BasicAuth = None\<rparr>"

definition testDecode :: "string \<Rightarrow> string + tokenJSON" where
  "testDecode b =
    (if b = emptyTokenBody then
       Inr \<lparr>AccessToken = [], TokenType = ''bearer'', RefreshToken = [], ExpiresIn = 0,
            ErrorCode = [], ErrorDescription = [], ErrorURI = []\<rparr>
     else if b = goodTokenBody then
       Inr \<lparr>AccessToken = ''abc'', TokenType = ''bearer'', RefreshToken = [], ExpiresIn = 0,
            ErrorCode = [], ErrorDescription = [], ErrorURI = []\<rparr>
     else Inl ''invalid character'')"

definition testResponse :: "int \<Rightarrow> string \<Rightarrow> Response" where
  "testResponse st b = \<lparr>StatusCode = st, Header = [(''Content-Type'', ''application/json'')],
                        BodyStream = Inr b\<rparr>"

definition testEncode :: "Values \<Rightarrow> string" where
  "testEncode v = Join (map (\<lambda>(k, xs). k @ ''='' @ Join xs '','') v) ''&''"

definition testClient :: "Response \<Rightarrow> Request \<Rightarrow> string + Response" where
  "testClient r req = Inr r"

definition testEnv :: "Response \<Rightarrow> Env" where
  "testEnv r =
    \<lparr>codeChallengeKey = ''code_challenge'',
     codeChallengeMethodKey = ''code_challenge_method'',
     codeVerifierKey = ''code_verifier'',
     Encode = testEncode,
     QueryEscape = id,
     NewRequest = testRequest,
     CloneDefaultClient = testClient r,
     ParseMediaType = id,
     ParseQuery = Inl,
     UnmarshalTokenJSON = testDecode,
     UnmarshalMetadata = (\<lambda>s. []),
     Atoi = (\<lambda>s. 0)\<rparr>"

definition testHandler :: "string \<Rightarrow> AuthorizationHandler" where
  "testHandler st u = (''c'', st, None)"

definition testOptions :: "string \<Rightarrow> Options3LO" where
  "testOptions st =
    \<lparr>ClientID = ''id'', ClientSecret = ''secret'', AuthURL = ''https://a.example/auth'',
     TokenURL = ''https://a.example/token'', RedirectURL = [], Scopes = [], URLParams = [],
     Client = None, AuthStyle = StyleInParams,
     AuthHandlerOpts = Some \<lparr>Handler = Some (testHandler st), State = ''s1'', PKCEConfig = None\<rparr>\<rparr>"

definition testProvider :: "string \<Rightarrow> tokenProviderWithHandler" where
  "testProvider st = \<lparr>opts = testOptions st, state = ''s1''\<rparr>"

definition tokenRequest :: "string \<Rightarrow> Request" where
  "tokenRequest b = \<lparr>Method = ''POST'', URL = ''https://a.example/token'', ReqBody = b,
      ReqHeader = [(''Content-Type'', ''application/x-www-form-urlencoded'')],
      BasicAuth = None\<rparr>"

section \<open>Package datastore: loading an entity into a record\<close>

text \<open>
  Modelled from the spec: the mapping engine of package datastore (the functions behind
  \<open>LoadStruct\<close> and \<open>loadEntityProto\<close>: field resolution, value coercion,
  the load walk and the dispatch to \<open>Load\<close> and \<open>LoadKey\<close>) is not among the
  source files; only its tests are. Every definition of this section up to the record
  types of the tests follows the specification's sections 3 and 4, and is run against
  the expectations of the tests further down.
\<close>

subsection \<open>Decoded entities\<close>

text \<open>
  Modelled from the spec: KeyReference, DecodedValue, Property and Entity of section 3.
  A key may be incomplete (no name) or have an incomplete ancestor; both are plain
  values. A float is kept as its 64 bits, a timestamp as seconds and nanoseconds since
  the epoch together with the location it is expressed in.
\<close>

datatype Key = MkKey (Kind: string) (KeyName: string) (Parent: "Key option")

datatype Location = UTC | Zone string int

datatype Timestamp = Timestamp (Seconds: int) (Nanos: int) (Loc: Location)

datatype GeoPoint = GeoPoint (Lat: "64 word") (Lng: "64 word")

datatype DecodedValue =
    Null
  | IntV int
  | FloatV "64 word"
  | BoolV bool
  | StringV string
  | BytesV "8 word list"
  | TimeV Timestamp
  | GeoV GeoPoint
  | KeyV Key
  | EntityV "Key option" "Property list"
  | ArrayV "DecodedValue list"
and Property = Property (Name: string) (PValue: DecodedValue) (NoIndex: bool)

datatype NatKind =
  KInt64 | KFloat64 | KBool | KString | KBytes | KTime | KGeoPoint | KKey | KEntity | KArray

fun natKind :: "DecodedValue \<Rightarrow> NatKind option" where
  "natKind Null = None"
| "natKind (IntV i) = Some KInt64"
| "natKind (FloatV f) = Some KFloat64"
| "natKind (BoolV b) = Some KBool"
| "natKind (StringV s) = Some KString"
| "natKind (BytesV b) = Some KBytes"
| "natKind (TimeV t) = Some KTime"
| "natKind (GeoV p) = Some KGeoPoint"
| "natKind (KeyV k) = Some KKey"
| "natKind (EntityV k ps) = Some KEntity"
| "natKind (ArrayV vs) = Some KArray"

fun natName :: "NatKind \<Rightarrow> string" where
  "natName KInt64 = ''int64''"
| "natName KFloat64 = ''float64''"
| "natName KBool = ''bool''"
| "natName KString = ''string''"
| "natName KBytes = ''[]uint8''"
| "natName KTime = ''time.Time''"
| "natName KGeoPoint = ''datastore.GeoPoint''"
| "natName KKey = ''*datastore.Key''"
| "natName KEntity = ''*datastore.Entity''"
| "natName KArray = ''[]interface {}''"

subsection \<open>Record types and record values\<close>

text \<open>
  Modelled from the spec: the native record types the engine reflects on, and their
  values. A field has its Go name, the property name of its tag when it has one, and
  the flag of an embedded (anonymous) field. An interface type other than the empty one
  carries its name and the natural kinds whose Go type satisfies it. A value of
  interface type holds a decoded value (\<open>Null\<close> when it holds nothing).
\<close>

datatype GoType =
    TInt | TFloat | TBool | TString | TBytes
  | TTime | TCivilDate | TCivilTime | TCivilDateTime | TGeoPoint | TKey
  | TStruct string "Field list"
  | TPtr GoType
  | TSlice GoType
  | TAny
  | TIface string "NatKind list"
and Field = Field (FName: string) (FTag: "string option") (FAnonymous: bool) (FType: GoType)

datatype CivilDate = CivilDate (Year: int) (Month: int) (Day: int)

datatype CivilTime = CivilTime (Hour: int) (Minute: int) (Second: int) (Nanosecond: int)

datatype GoValue =
    IntG int
  | FloatG "64 word"
  | BoolG bool
  | StringG string
  | BytesG "8 word list"
  | TimeG Timestamp
  | DateG CivilDate
  | ClockG CivilTime
  | DateTimeG CivilDate CivilTime
  | GeoG GeoPoint
  | KeyG "Key option"
  | StructG "GoValue list"
  | PtrG "GoValue option"
  | SliceG "GoValue list"
  | IfaceG DecodedValue

datatype ErrFieldMismatch =
  ErrFieldMismatch (StructType: string) (FieldName: string) (Reason: string)

datatype LoadError = MismatchError "ErrFieldMismatch list" | OtherError string

text \<open>Modelled from the spec: the zero value of each kind.\<close>

fun zero :: "GoType \<Rightarrow> GoValue" and zeroFields :: "Field list \<Rightarrow> GoValue list" where
  "zero TInt = IntG 0"
| "zero TFloat = FloatG 0"
| "zero TBool = BoolG False"
| "zero TString = StringG []"
| "zero TBytes = BytesG []"
| "zero TTime = TimeG (Timestamp (- 62135596800) 0 UTC)"
| "zero TCivilDate = DateG (CivilDate 0 0 0)"
| "zero TCivilTime = ClockG (CivilTime 0 0 0 0)"
| "zero TCivilDateTime = DateTimeG (CivilDate 0 0 0) (CivilTime 0 0 0 0)"
| "zero TGeoPoint = GeoG (GeoPoint 0 0)"
| "zero TKey = KeyG None"
| "zero (TStruct n fs) = StructG (zeroFields fs)"
| "zero (TPtr T) = PtrG None"
| "zero (TSlice T) = SliceG []"
| "zero TAny = IfaceG Null"
| "zero (TIface n ks) = IfaceG Null"
| "zeroFields [] = []"
| "zeroFields (Field n t a T # fs) = zero T # zeroFields fs"

subsection \<open>Field Path Resolver\<close>

text \<open>
  Modelled from the spec: section 4.1. The field map sends a flattened property name to
  the path of field-access steps, each a field index with the flag "through a pointer
  to a struct". Fields are taken in declaration order; an unexported field and the
  key-holder field (tag \<open>__key__\<close>) have no entry; the fields of an embedded struct
  are promoted; a struct-typed field named \<open>A\<close> has its own entry and, for each
  entry \<open>m\<close> of its type, the entry \<open>A.m\<close>. A type whose flattened names collide
  is malformed.
\<close>

type_synonym Step = "nat \<times> bool"

type_synonym FieldMap = "(string \<times> Step list) list"

definition keyTag :: string where
  "keyTag = ''__key__''"

fun exported :: "string \<Rightarrow> bool" where
  "exported [] = False"
| "exported (c # cs) = (65 \<le> (of_char c :: nat) \<and> (of_char c :: nat) \<le> 90)"

definition propName :: "Field \<Rightarrow> string" where
  "propName f = (case FTag f of Some t \<Rightarrow> t | None \<Rightarrow> FName f)"

fun structFields :: "GoType \<Rightarrow> (bool \<times> Field list) option" where
  "structFields (TStruct n fs) = Some (False, fs)"
| "structFields (TPtr (TStruct n fs)) = Some (True, fs)"
| "structFields T = None"

function fieldEntries :: "nat \<Rightarrow> Field list \<Rightarrow> FieldMap" where
  "fieldEntries i [] = []"
| "fieldEntries i (f # fs) =
     (if \<not> exported (FName f) \<or> FTag f = Some keyTag then fieldEntries (Suc i) fs
      else
        (case structFields (FType f) of
           None \<Rightarrow> (propName f, [(i, False)]) # fieldEntries (Suc i) fs
         | Some (isptr, sub) \<Rightarrow>
             (if FAnonymous f \<and> FTag f = None then
                map (\<lambda>(m, p). (m, (i, isptr) # p)) (fieldEntries 0 sub)
              else
                (propName f, [(i, False)])
                # map (\<lambda>(m, p). (propName f @ ''.'' @ m, (i, isptr) # p)) (fieldEntries 0 sub))
             @ fieldEntries (Suc i) fs))"
  by pat_completeness auto
termination
proof -
  have a: "size_list size sub < size T" if "structFields T = Some (b, sub)" for T b sub
    using that by (induction T rule: structFields.induct) auto
  have c: "size_list size sub < size f" if "structFields (FType f) = Some (b, sub)" for f b sub
    using a [OF that] by (cases f) auto
  show ?thesis
    by (relation "measure (\<lambda>(i, fs). size_list size fs)") (auto dest: c)
qed

fun keyHolder :: "nat \<Rightarrow> Field list \<Rightarrow> nat option" where
  "keyHolder i [] = None"
| "keyHolder i (f # fs) =
     (if exported (FName f) \<and> FTag f = Some keyTag \<and> FType f = TKey then Some i
      else keyHolder (Suc i) fs)"

fun wellFormed :: "GoType \<Rightarrow> bool" and wellFormedFields :: "Field list \<Rightarrow> bool" where
  "wellFormed (TStruct n fs) = (distinct (map fst (fieldEntries 0 fs)) \<and> wellFormedFields fs)"
| "wellFormed (TPtr T) = wellFormed T"
| "wellFormed (TSlice T) = wellFormed T"
| "wellFormed T = True"
| "wellFormedFields [] = True"
| "wellFormedFields (Field n t a T # fs) = (wellFormed T \<and> wellFormedFields fs)"

subsection \<open>Reaching a field\<close>

text \<open>
  Modelled from the spec: following a path during a load. A nil pointer on the way is
  read as a fresh zero value and written back allocated. A value that has not the shape
  of its struct type is read as the zero value of that type.
\<close>

fun fieldsOf :: "Field list \<Rightarrow> GoValue \<Rightarrow> GoValue list" where
  "fieldsOf fs (StructG vs) = (if length vs = length fs then vs else zeroFields fs)"
| "fieldsOf fs g = zeroFields fs"

fun deref :: "GoType \<Rightarrow> GoValue \<Rightarrow> GoValue" where
  "deref T (PtrG (Some x)) = x"
| "deref T g = zero T"

fun target :: "bool \<Rightarrow> GoType \<Rightarrow> GoValue \<Rightarrow> GoType \<times> GoValue" where
  "target True (TPtr S) v = (S, deref S v)"
| "target b T v = (T, v)"

fun retarget :: "bool \<Rightarrow> GoType \<Rightarrow> GoValue \<Rightarrow> GoValue" where
  "retarget True (TPtr S) x = PtrG (Some x)"
| "retarget b T x = x"

fun getPath :: "GoType \<Rightarrow> GoValue \<Rightarrow> Step list \<Rightarrow> GoType \<times> GoValue" where
  "getPath T g [] = (T, g)"
| "getPath (TStruct n fs) g ((i, b) # p) =
     (if i < length fs then
        (case target b (FType (fs ! i)) (fieldsOf fs g ! i) of (T', g') \<Rightarrow> getPath T' g' p)
      else (TStruct n fs, g))"
| "getPath T g (s # p) = (T, g)"

fun putPath :: "GoType \<Rightarrow> GoValue \<Rightarrow> Step list \<Rightarrow> GoValue \<Rightarrow> GoValue" where
  "putPath T g [] x = x"
| "putPath (TStruct n fs) g ((i, b) # p) x =
     (if i < length fs then
        (case target b (FType (fs ! i)) (fieldsOf fs g ! i) of
           (T', g') \<Rightarrow>
             StructG ((fieldsOf fs g)[i := retarget b (FType (fs ! i)) (putPath T' g' p x)]))
      else g)"
| "putPath T g (s # p) x = g"

text \<open>
  The paths the resolver can produce for a type, and two paths that part at some step
  (neither field lies inside the other).
\<close>

fun targetType :: "bool \<Rightarrow> GoType \<Rightarrow> GoType" where
  "targetType True (TPtr S) = S"
| "targetType b T = T"

fun validPath :: "GoType \<Rightarrow> Step list \<Rightarrow> bool" where
  "validPath T [] = True"
| "validPath (TStruct n fs) ((i, b) # p) =
     (i < length fs \<and> validPath (targetType b (FType (fs ! i))) p)"
| "validPath T (s # p) = False"


subsection \<open>Value Coercion Engine\<close>

text \<open>
  Modelled from the spec: section 4.2. Timestamps are expressed in UTC; the civil date
  and time of a timestamp are those of its instant in UTC (days since the epoch by the
  usual era arithmetic of the proleptic Gregorian calendar).
\<close>

definition inUTC :: "Timestamp \<Rightarrow> Timestamp" where
  "inUTC t = Timestamp (Seconds t) (Nanos t) UTC"

definition yearOfEra :: "int \<Rightarrow> int" where
  "yearOfEra doe = (doe - doe div 1460 + doe div 36524 - doe div 146096) div 365"

definition dayOfYear :: "int \<Rightarrow> int \<Rightarrow> int" where
  "dayOfYear doe yoe = doe - (365 * yoe + yoe div 4 - yoe div 100)"

definition monthIndex :: "int \<Rightarrow> int" where
  "monthIndex doy = (5 * doy + 2) div 153"

definition civilOfMonth :: "int \<Rightarrow> int \<Rightarrow> int \<Rightarrow> CivilDate" where
  "civilOfMonth y doy mp =
     CivilDate (if mp < 10 then y else y + 1) (if mp < 10 then mp + 3 else mp - 9)
               (doy - (153 * mp + 2) div 5 + 1)"

definition civilOfEra :: "int \<Rightarrow> int \<Rightarrow> int \<Rightarrow> CivilDate" where
  "civilOfEra era doe yoe =
     civilOfMonth (yoe + era * 400) (dayOfYear doe yoe) (monthIndex (dayOfYear doe yoe))"

definition civilFromDays :: "int \<Rightarrow> CivilDate" where
  "civilFromDays days =
     civilOfEra ((days + 719468) div 146097) ((days + 719468) mod 146097)
                (yearOfEra ((days + 719468) mod 146097))"

definition civilDate :: "Timestamp \<Rightarrow> CivilDate" where
  "civilDate t = civilFromDays (Seconds t div 86400)"

definition civilTime :: "Timestamp \<Rightarrow> CivilTime" where
  "civilTime t =
     CivilTime (Seconds t mod 86400 div 3600) (Seconds t mod 3600 div 60) (Seconds t mod 60)
               (Nanos t)"

text \<open>
  Modelled from the spec: the scalar and well-known kinds. A null gives the zero value
  of the kind; a value of another kind gives nothing (a field mismatch).
\<close>

definition coerceLeaf :: "GoType \<Rightarrow> DecodedValue \<Rightarrow> GoValue option" where
  "coerceLeaf T v =
    (case v of
       Null \<Rightarrow> Some (zero T)
     | IntV i \<Rightarrow> (if T = TInt then Some (IntG i) else None)
     | FloatV f \<Rightarrow> (if T = TFloat then Some (FloatG f) else None)
     | BoolV b \<Rightarrow> (if T = TBool then Some (BoolG b) else None)
     | StringV s \<Rightarrow> (if T = TString then Some (StringG s) else None)
     | BytesV b \<Rightarrow> (if T = TBytes then Some (BytesG b) else None)
     | TimeV t \<Rightarrow>
         (if T = TTime then Some (TimeG (inUTC t))
          else if T = TCivilDate then Some (DateG (civilDate t))
          else if T = TCivilTime then Some (ClockG (civilTime t))
          else if T = TCivilDateTime then Some (DateTimeG (civilDate t) (civilTime t))
          else None)
     | GeoV p \<Rightarrow> (if T = TGeoPoint then Some (GeoG p) else None)
     | KeyV k \<Rightarrow> (if T = TKey then Some (KeyG (Some k)) else None)
     | EntityV k ps \<Rightarrow> None
     | ArrayV vs \<Rightarrow> None)"

text \<open>
  The reason of an unassignable interface, in the words the test "Typed interface" of
  \<open>TestLoadToInterface\<close> expects.
\<close>

definition notAssignable :: "NatKind \<Rightarrow> string \<Rightarrow> string" where
  \<open>notAssignable k iname = ''"'' @ natName k @ ''" is not assignable to "'' @ iname @ ''"''\<close>

text \<open>
  Modelled from the spec: the key of an entity goes to the key-holder field, when the
  type has one and the entity has a key, whatever the key is.
\<close>

definition assignKey :: "Field list \<Rightarrow> GoValue \<Rightarrow> Key option \<Rightarrow> GoValue" where
  "assignKey fs g k =
    (case k of
       None \<Rightarrow> g
     | Some key \<Rightarrow>
         (case keyHolder 0 fs of
            None \<Rightarrow> g
          | Some i \<Rightarrow> StructG ((fieldsOf fs g)[i := KeyG (Some key)])))"

text \<open>
  Modelled from the spec: the coercion of one decoded value into one field slot
  (section 4.2) and the walk over a property list (section 4.3), which call each other
  through nested entities. Both return the field mismatches met, in order. A property
  that names no field is a field mismatch and the walk goes on: the case "simple key
  loader with unmatched properties" of \<open>TestKeyLoader\<close> loads \<open>A\<close> and the key
  although \<open>B\<close> matches no field.
\<close>

function (sequential) coerce ::
    "string \<Rightarrow> string \<Rightarrow> GoType \<Rightarrow> GoValue \<Rightarrow> DecodedValue \<Rightarrow> GoValue \<times> ErrFieldMismatch list"
  and loadProps ::
    "string \<Rightarrow> Field list \<Rightarrow> GoValue \<Rightarrow> Property list \<Rightarrow> GoValue \<times> ErrFieldMismatch list"
  and coerceElems ::
    "string \<Rightarrow> string \<Rightarrow> GoType \<Rightarrow> DecodedValue list \<Rightarrow> GoValue list \<times> ErrFieldMismatch list"
where
  "coerce sn fn (TStruct n fs) cur v =
     (case v of
        EntityV k ps \<Rightarrow>
          (case loadProps n fs (StructG (fieldsOf fs cur)) ps of
             (g, es) \<Rightarrow> (assignKey fs g k, es))
      | Null \<Rightarrow> (cur, [ErrFieldMismatch sn fn ''nested null into struct''])
      | _ \<Rightarrow> (cur, [ErrFieldMismatch sn fn ''wrong kind'']))"
| "coerce sn fn (TPtr T) cur v =
     (case v of
        Null \<Rightarrow> (PtrG None, [])
      | _ \<Rightarrow> (case coerce sn fn T (deref T cur) v of (x, es) \<Rightarrow> (PtrG (Some x), es)))"
| "coerce sn fn (TSlice T) cur v =
     (case v of
        ArrayV vs \<Rightarrow>
          (if vs = [] then (cur, [])
           else (case coerceElems sn fn T vs of (xs, es) \<Rightarrow> (SliceG xs, es)))
      | _ \<Rightarrow> (case coerce sn fn T (zero T) v of (x, es) \<Rightarrow> (SliceG [x], es)))"
| "coerce sn fn TAny cur v = (IfaceG v, [])"
| "coerce sn fn (TIface iname impls) cur v =
     (case natKind v of
        None \<Rightarrow> (IfaceG Null, [])
      | Some k \<Rightarrow>
          (if k \<in> set impls then (IfaceG v, [])
           else (cur, [ErrFieldMismatch sn fn (notAssignable k iname)])))"
| "coerce sn fn T cur v =
     (case coerceLeaf T v of
        Some x \<Rightarrow> (x, [])
      | None \<Rightarrow> (cur, [ErrFieldMismatch sn fn ''wrong kind'']))"
| "loadProps n fs g [] = (g, [])"
| "loadProps n fs g (Property nm v ni # ps) =
     (case map_of (fieldEntries 0 fs) nm of
        None \<Rightarrow>
          (case loadProps n fs g ps of
             (g', es) \<Rightarrow> (g', ErrFieldMismatch n nm ''no such struct field'' # es))
      | Some path \<Rightarrow>
          (case getPath (TStruct n fs) g path of
             (sT, cur) \<Rightarrow>
               (case coerce n nm sT cur v of
                  (new, es1) \<Rightarrow>
                    (case loadProps n fs (putPath (TStruct n fs) g path new) ps of
                       (g', es2) \<Rightarrow> (g', es1 @ es2)))))"
| "coerceElems sn fn T [] = ([], [])"
| "coerceElems sn fn T (v # vs) =
     (case coerce sn fn T (zero T) v of
        (x, es1) \<Rightarrow>
          (case coerceElems sn fn T vs of (xs, es2) \<Rightarrow> (x # xs, es1 @ es2)))"
  by pat_completeness auto
termination
  by (relation "inv_image (less_than <*lex*> less_than)
        (\<lambda>x. case x of
           Inl (sn, fn, T, cur, v) \<Rightarrow> (size v, size T)
         | Inr (Inl (n, fs, g, ps)) \<Rightarrow> (size_list size ps, 0)
         | Inr (Inr (sn, fn, T, vs)) \<Rightarrow> (size_list size vs, 0))")
     auto

subsection \<open>Load Orchestrator\<close>

text \<open>
  Modelled from the spec: section 4.3. A malformed type fails before any property is
  loaded. The field mismatches of the walk are reported once, aggregated, and the key is
  assigned whether or not there are any.
\<close>

record Entity =
  Key :: "Key option"
  Properties :: "Property list"

definition loadEntityToStruct ::
  "GoType \<Rightarrow> GoValue \<Rightarrow> Key option \<Rightarrow> Property list \<Rightarrow> GoValue \<times> LoadError option" where
  "loadEntityToStruct T g k ps =
    (case T of
       TStruct n fs \<Rightarrow>
         (if \<not> wellFormed T then (g, Some (OtherError ''malformed type''))
          else
            (case loadProps n fs g ps of
               (g', es) \<Rightarrow>
                 (assignKey fs g' k, if es = [] then None else Some (MismatchError es))))
     | _ \<Rightarrow> (g, Some (OtherError ''not a struct'')))"

definition LoadStruct :: "GoType \<Rightarrow> GoValue \<Rightarrow> Property list \<Rightarrow> GoValue \<times> LoadError option" where
  "LoadStruct T g ps = loadEntityToStruct T g None ps"

subsection \<open>Capability Dispatcher\<close>

text \<open>
  Modelled from the spec: section 4.4. A capability is a Go method on the record: it
  returns the record as it leaves it and its error, or panics (\<open>None\<close>). Custom load
  replaces the reflective walk. Key assignment comes after property loading, by
  \<open>LoadKey\<close> when the type has it and by the key-holder field otherwise. Of the two
  errors, a key error that is not a field mismatch is returned as it is; otherwise the
  load error is reported when it is a field mismatch, and the key error when load
  reported no field mismatch. An error of custom load that is not a field mismatch does
  not stop the key assignment, and a field mismatch of the key is reported over it: the
  case "simple key loader with other error during Load and ErrFieldMismatch during
  KeyLoad" of \<open>TestKeyLoader\<close> fails unless the result is a field mismatch. A malformed
  type ends the reflective load at once.
\<close>

record Capabilities =
  customLoad :: "(GoValue \<Rightarrow> Property list \<Rightarrow> (GoValue \<times> LoadError option) option) option"
  customLoadKey :: "(GoValue \<Rightarrow> Key option \<Rightarrow> (GoValue \<times> LoadError option) option) option"

fun isFatal :: "LoadError option \<Rightarrow> bool" where
  "isFatal (Some (OtherError m)) = True"
| "isFatal e = False"

fun isMismatch :: "LoadError option \<Rightarrow> bool" where
  "isMismatch (Some (MismatchError es)) = True"
| "isMismatch e = False"

definition reported :: "LoadError option \<Rightarrow> LoadError option \<Rightarrow> LoadError option" where
  "reported lerr kerr =
    (if isFatal kerr then kerr
     else if isMismatch lerr then lerr
     else if kerr \<noteq> None then kerr
     else lerr)"

definition reflectKey :: "GoType \<Rightarrow> GoValue \<Rightarrow> Key option \<Rightarrow> GoValue" where
  "reflectKey T g k = (case T of TStruct n fs \<Rightarrow> assignKey fs g k | _ \<Rightarrow> g)"

definition loadKeyPhase ::
  "Capabilities \<Rightarrow> GoType \<Rightarrow> GoValue \<Rightarrow> LoadError option \<Rightarrow> Key option
     \<Rightarrow> (GoValue \<times> LoadError option) option" where
  "loadKeyPhase caps T g1 lerr k =
    (case (case customLoadKey caps of
             Some lk \<Rightarrow> lk g1 k
           | None \<Rightarrow> Some (reflectKey T g1 k, None)) of
       None \<Rightarrow> None
     | Some (g2, kerr) \<Rightarrow> Some (g2, reported lerr kerr))"

definition loadEntity ::
  "Capabilities \<Rightarrow> GoType \<Rightarrow> GoValue \<Rightarrow> Entity \<Rightarrow> (GoValue \<times> LoadError option) option" where
  "loadEntity caps T g ent =
    (case customLoad caps of
       None \<Rightarrow>
         (case loadEntityToStruct T g None (Properties ent) of
            (g1, lerr) \<Rightarrow>
              if isFatal lerr then Some (g1, lerr)
              else loadKeyPhase caps T g1 lerr (Key ent))
     | Some ld \<Rightarrow>
         (case ld g (Properties ent) of
            None \<Rightarrow> None
          | Some (g1, lerr) \<Rightarrow> loadKeyPhase caps T g1 lerr (Key ent)))"

definition noCapabilities :: Capabilities where
  "noCapabilities = \<lparr>customLoad = None, customLoadKey = None\<rparr>"

subsection \<open>The record types and capabilities of the tests\<close>

text \<open>
  The struct types of \<open>load_test.go\<close>, by their reflected names, and the methods
  \<open>Load\<close> and \<open>LoadKey\<close> of \<open>KeyLoader6\<close>, \<open>KeyLoader7\<close> and
  \<open>KeyLoader8\<close>. The type
  assertion \<open>pp.Value.(string)\<close> panics on a value that is not a string.
  \<open>fmt.Stringer\<close> is satisfied by \<open>time.Time\<close> and \<open>*Key\<close> among the natural
  types. \<open>testKey0\<close> is declared in another test file; any key does.
\<close>

definition plain :: "string \<Rightarrow> GoType \<Rightarrow> Field" where
  "plain n T = Field n None False T"

definition tagged :: "string \<Rightarrow> string \<Rightarrow> GoType \<Rightarrow> Field" where
  "tagged n t T = Field n (Some t) False T"

definition embedded :: "string \<Rightarrow> GoType \<Rightarrow> Field" where
  "embedded n T = Field n None True T"

definition Simple :: GoType where
  "Simple = TStruct ''datastore.Simple'' [plain ''I'' TInt]"

definition SimpleWithTag :: GoType where
  "SimpleWithTag = TStruct ''datastore.SimpleWithTag'' [tagged ''I'' ''II'' TInt]"

definition NestedSimpleWithTag :: GoType where
  "NestedSimpleWithTag =
     TStruct ''datastore.NestedSimpleWithTag'' [tagged ''A'' ''AA'' SimpleWithTag]"

definition SimpleTwoFields :: GoType where
  "SimpleTwoFields =
     TStruct ''datastore.SimpleTwoFields'' [plain ''S'' TString, plain ''SS'' TString]"

definition NestedSimpleAnonymous :: GoType where
  "NestedSimpleAnonymous =
     TStruct ''datastore.NestedSimpleAnonymous'' [embedded ''Simple'' Simple, plain ''X'' TString]"

definition NestedSimple1 :: GoType where
  "NestedSimple1 = TStruct ''datastore.NestedSimple1'' [plain ''A'' Simple, plain ''X'' TString]"

definition BDotB :: GoType where
  "BDotB = TStruct ''datastore.BDotB'' [tagged ''B'' ''B.B'' TString]"

definition ABDotB :: GoType where
  "ABDotB = TStruct ''datastore.ABDotB'' [plain ''A'' BDotB]"

definition MultiAnonymous :: GoType where
  "MultiAnonymous =
     TStruct ''datastore.MultiAnonymous''
       [embedded ''Simple'' Simple, embedded ''SimpleTwoFields'' SimpleTwoFields,
        plain ''X'' TString]"

definition WithKey :: GoType where
  "WithKey =
     TStruct ''datastore.WithKey''
       [plain ''X'' TString, plain ''I'' TInt, tagged ''K'' ''__key__'' TKey]"

definition NestedWithKey :: GoType where
  "NestedWithKey = TStruct ''datastore.NestedWithKey'' [plain ''Y'' TString, plain ''N'' WithKey]"

definition NestedSimple2 :: GoType where
  "NestedSimple2 =
     TStruct ''datastore.NestedSimple2''
       [plain ''A'' (TPtr Simple), plain ''I'' TInt, plain ''U'' TAny]"

definition NestedStructPtrs :: GoType where
  "NestedStructPtrs =
     TStruct ''datastore.NestedStructPtrs''
       [embedded ''SimpleTwoFields'' (TPtr SimpleTwoFields),
        plain ''Nest'' (TPtr SimpleTwoFields),
        plain ''TwiceNest'' (TPtr NestedSimple2),
        plain ''I'' TInt]"

definition Stringer :: GoType where
  "Stringer = TIface ''fmt.Stringer'' [KTime, KKey]"

definition withTypedInterface :: GoType where
  "withTypedInterface = TStruct ''datastore.withTypedInterface'' [plain ''Field'' Stringer]"

definition withUntypedInterface :: GoType where
  "withUntypedInterface = TStruct ''datastore.withUntypedInterface'' [plain ''Field'' TAny]"

definition LoadNullS :: GoType where
  "LoadNullS =
     TStruct ''datastore.S''
       [plain ''I'' TInt, plain ''F'' TFloat, plain ''S'' TString, plain ''B'' TBool,
        plain ''A'' (TSlice TString)]"

definition SliceOfString :: GoType where
  "SliceOfString = TStruct ''struct { S []string }'' [plain ''S'' (TSlice TString)]"

definition testKey0 :: Key where
  "testKey0 = MkKey ''kind'' ''name0'' None"

definition entry :: "string \<Rightarrow> DecodedValue \<Rightarrow> Property" where
  "entry n v = Property n v False"

definition one_e9 :: "64 word" where
  "one_e9 = 0x41CDCD6500000000"

definition KeyLoader6 :: GoType where
  "KeyLoader6 =
     TStruct ''datastore.KeyLoader6'' [plain ''A'' TString, plain ''B'' TString, plain ''K'' TKey]"

definition KeyLoader7 :: GoType where
  "KeyLoader7 = TStruct ''datastore.KeyLoader7'' [plain ''A'' TString, plain ''K'' TKey]"

fun setField :: "GoValue \<Rightarrow> nat \<Rightarrow> GoValue \<Rightarrow> GoValue" where
  "setField (StructG vs) i x = StructG (vs[i := x])"
| "setField g i x = g"

fun loadA :: "GoValue \<Rightarrow> Property list \<Rightarrow> GoValue option" where
  "loadA kl [] = Some kl"
| "loadA kl (pp # props) =
     (if Name pp = ''A'' then
        (case PValue pp of
           StringV s \<Rightarrow> loadA (setField kl 0 (StringG s)) props
         | _ \<Rightarrow> None)
      else loadA kl props)"

definition KeyLoader6_Load :: "GoValue \<Rightarrow> Property list \<Rightarrow> (GoValue \<times> LoadError option) option" where
  "KeyLoader6_Load kl props =
    (case loadA kl props of
       None \<Rightarrow> None
     | Some kl' \<Rightarrow>
         Some (kl', Some (MismatchError
           [ErrFieldMismatch ''*datastore.KeyLoader6'' ''B'' ''no value found''])))"

definition KeyLoader6_LoadKey :: "GoValue \<Rightarrow> Key option \<Rightarrow> (GoValue \<times> LoadError option) option" where
  "KeyLoader6_LoadKey kl k = Some (setField kl 2 (KeyG k), None)"

definition KeyLoader7_Load :: "GoValue \<Rightarrow> Property list \<Rightarrow> (GoValue \<times> LoadError option) option" where
  "KeyLoader7_Load kl props =
    (case loadA kl props of None \<Rightarrow> None | Some kl' \<Rightarrow> Some (kl', None))"

definition KeyLoader8 :: GoType where
  "KeyLoader8 =
     TStruct ''datastore.KeyLoader8'' [plain ''A'' TString, plain ''B'' TString, plain ''K'' TKey]"

definition KeyLoader8_Load :: "GoValue \<Rightarrow> Property list \<Rightarrow> (GoValue \<times> LoadError option) option" where
  "KeyLoader8_Load kl props =
    (case loadA kl props of
       None \<Rightarrow> None
     | Some kl' \<Rightarrow> Some (kl', Some (OtherError ''custom load error'')))"

definition KeyLoader8_LoadKey :: "GoValue \<Rightarrow> Key option \<Rightarrow> (GoValue \<times> LoadError option) option" where
  "KeyLoader8_LoadKey kl k =
    Some (kl, Some (MismatchError
      [ErrFieldMismatch ''*datastore.KeyLoader8'' ''key'' ''no value found'']))"

definition KeyLoader7_LoadKey :: "GoValue \<Rightarrow> Key option \<Rightarrow> (GoValue \<times> LoadError option) option" where
  "KeyLoader7_LoadKey kl k =
    Some (kl, Some (MismatchError
      [ErrFieldMismatch ''*datastore.KeyLoader7'' ''key'' ''no value found'']))"

definition gotS :: GoValue where
  "gotS = StructG [IntG 1, FloatG 0x3FF0000000000000, StringG ''1'', BoolG True,
                   SliceG [StringG ''X'']]"

definition PtrToS :: GoType where
  "PtrToS = TStruct ''struct { X *datastore.S }'' [plain ''X'' (TPtr LoadNullS)]"

definition StructOfS :: GoType where
  "StructOfS = TStruct ''struct { X datastore.S }'' [plain ''X'' LoadNullS]"

definition TimeHolder :: GoType where
  "TimeHolder = TStruct ''struct { Time time.Time }'' [plain ''Time'' TTime]"

definition DateHolder :: GoType where
  "DateHolder = TStruct ''struct { Date civil.Date }'' [plain ''Date'' TCivilDate]"

definition DateTimeHolder :: GoType where
  "DateTimeHolder =
     TStruct ''struct { DateTime civil.DateTime }'' [plain ''DateTime'' TCivilDateTime]"

definition ClockHolder :: GoType where
  "ClockHolder = TStruct ''struct { Time civil.Time }'' [plain ''Time'' TCivilTime]"

definition populatedPtrs :: GoValue where
  "populatedPtrs =
     StructG [PtrG (Some (StructG [StringG ''hello'', StringG []])),
              PtrG (Some (StructG [StringG [], StringG ''twice hello''])),
              PtrG (Some (StructG [PtrG (Some (StructG [IntG 2])), IntG 0,
                                   IfaceG (FloatV one_e9)])),
              IntG 0]"

definition NestedSimple :: GoType where
  "NestedSimple = TStruct ''datastore.NestedSimple'' [plain ''A'' Simple, plain ''I'' TInt]"

definition NotPLSKeyLoader :: GoType where
  "NotPLSKeyLoader =
     TStruct ''datastore.NotPLSKeyLoader'' [plain ''A'' TString, tagged ''K'' ''__key__'' TKey]"

definition incompleteKey :: Key where
  "incompleteKey = MkKey [] [] None"

definition invalidKey :: Key where
  "invalidKey = MkKey ''s'' [] (Some incompleteKey)"


definition testEntity :: Entity where
  "testEntity = \<lparr>Key = Some testKey0, Properties = [entry ''A'' (StringV ''hello'')]\<rparr>"


section \<open>Properties of the OAuth2 flow\<close>

lemmas test_defs =
  testEnv_def testOptions_def testProvider_def testHandler_def testRequest_def testDecode_def
  testResponse_def testEncode_def testClient_def tokenRequest_def emptyTokenBody_def
  goodTokenBody_def

lemmas flow_defs =
  Token_def authCodeURL_def exchange_def fetchToken_def withClientInfo_def withHeaders_def
  client_def tokenFromResponse_def readBody_def parseBody_def Header_Get_def Values_Get_def
  expiry_def Let_def

lemma fetchToken_test_empty:
  "fetchToken (testEnv (testResponse 200 emptyTokenBody)) (testOptions ''s1'') [] =
     ((None, [], Some (ErrorsNew ''auth: server response missing access_token'')),
      [CallDo (tokenRequest ''client_id=id&client_secret=secret'')])"
  by (simp add: flow_defs test_defs)

lemma fetchToken_test_400:
  "fetchToken (testEnv (testResponse 400 goodTokenBody)) (testOptions ''s1'') [] =
     ((None, [], Some (AuthError \<lparr>Response = testResponse 400 goodTokenBody, Body = goodTokenBody,
          code = [], description = [], uri = []\<rparr>)),
      [CallDo (tokenRequest ''client_id=id&client_secret=secret'')])"
  by (simp add: flow_defs test_defs)

lemma Token_test_equal:
  "Token (testEnv (testResponse 200 goodTokenBody)) (testProvider ''s1'') =
     Some ((Some \<lparr>Value = ''abc'', Type = ''bearer'', Expiry = ZeroTime, Metadata = []\<rparr>, None),
       [CallHandler ''https://a.example/auth?response_type=code&client_id=id&state=s1'',
        CallExchange ''c'',
        CallDo (tokenRequest
          ''grant_type=authorization_code&code=c&client_id=id&client_secret=secret'')])"
  by (simp add: flow_defs test_defs)

lemma tokenFromResponse_token:
  "tokenFromResponse env r = (Some tok, rt, e) \<Longrightarrow> Value tok \<noteq> [] \<and> e = None"
  by (auto simp: tokenFromResponse_def split: sum.splits prod.splits if_splits)

lemma fetchToken_token:
  "fst (fetchToken env c v) = (Some tok, rt, e) \<Longrightarrow> Value tok \<noteq> [] \<and> e = None"
  by (auto simp: fetchToken_def Let_def dest: tokenFromResponse_token split: sum.splits if_splits)

lemma parseBody_failure:
  "StatusCode r < 200 \<or> StatusCode r > 299 \<Longrightarrow> parseBody env r body = Inl err \<Longrightarrow>
   \<exists>e. err = AuthError e \<and> Response e = r \<and> Body e = body"
  by (auto simp: parseBody_def Let_def split: sum.splits if_splits)

lemma parseBody_Error:
  "parseBody env r body = Inr (te, tok, rt) \<Longrightarrow> Response te = r \<and> Body te = body"
  by (auto simp: parseBody_def Let_def split: sum.splits if_splits)

text \<open>
  C10. In \<open>tokenProviderWithHandler.Token\<close>, when the authorization handler returns
  (without an error) a state that differs from the configured one, the result is the error
  "auth: state mismatch in 3-legged-OAuth flow", and the only call made is the one to the
  handler: neither \<open>exchange\<close> nor the HTTP client is called. Whenever \<open>exchange\<close> or
  the HTTP client is called, the handler has returned the configured state and no error.
  Whatever the handler returns beside a state that differs (also an error of its own),
  \<open>Token\<close> returns an error and no token, and calls nothing but the handler.
\<close>

theorem Token_state_mismatch:
  "(\<forall>aho h cd st.
      AuthHandlerOpts (opts tp) = Some aho \<and> Handler aho = Some h \<and>
      h (authCodeURL env (opts tp) (state tp) []) = (cd, st, None) \<and> st \<noteq> state tp \<longrightarrow>
      Token env tp =
        Some ((None, Some (ErrorsNew ''auth: state mismatch in 3-legged-OAuth flow'')),
              [CallHandler (authCodeURL env (opts tp) (state tp) [])]))
   \<and> (\<forall>res calls x y.
        Token env tp = Some (res, calls) \<and> (CallExchange x \<in> set calls \<or> CallDo y \<in> set calls) \<longrightarrow>
        (\<exists>aho h cd.
           AuthHandlerOpts (opts tp) = Some aho \<and> Handler aho = Some h \<and>
           h (authCodeURL env (opts tp) (state tp) []) = (cd, state tp, None)))
   \<and> (\<forall>aho h cd st e.
        AuthHandlerOpts (opts tp) = Some aho \<and> Handler aho = Some h \<and>
        h (authCodeURL env (opts tp) (state tp) []) = (cd, st, e) \<and> st \<noteq> state tp \<longrightarrow>
        (\<exists>err. Token env tp =
           Some ((None, Some err), [CallHandler (authCodeURL env (opts tp) (state tp) [])])))"
  by (auto simp: Token_def Let_def split: option.splits prod.splits if_splits)

theorem Token_state_mismatch_witness:
  "Token (testEnv (testResponse 200 goodTokenBody)) (testProvider ''s2'') =
     Some ((None, Some (ErrorsNew ''auth: state mismatch in 3-legged-OAuth flow'')),
           [CallHandler ''https://a.example/auth?response_type=code&client_id=id&state=s1''])
   \<and> CallExchange ''c''
       \<in> set (snd (the (Token (testEnv (testResponse 200 goodTokenBody)) (testProvider ''s1''))))
   \<and> (\<exists>aho h cd. AuthHandlerOpts (opts (testProvider ''s1'')) = Some aho \<and> Handler aho = Some h \<and>
         h (authCodeURL (testEnv (testResponse 200 goodTokenBody)) (opts (testProvider ''s1''))
              (state (testProvider ''s1'')) []) = (cd, state (testProvider ''s1''), None))"
proof -
  let ?env = "testEnv (testResponse 200 goodTokenBody)"
  let ?url = "''https://a.example/auth?response_type=code&client_id=id&state=s1''"
  have u: "authCodeURL ?env (opts (testProvider st)) (state (testProvider st)) [] = ?url" for st
    by (simp add: authCodeURL_def test_defs)
  have a: "CallExchange ''c'' \<in> set (snd (the (Token ?env (testProvider ''s1''))))"
    by (simp add: Token_test_equal)
  have b: "Token ?env (testProvider ''s1'') =
      Some ((Some \<lparr>Value = ''abc'', Type = ''bearer'', Expiry = ZeroTime, Metadata = []\<rparr>, None),
       [CallHandler ?url, CallExchange ''c'',
        CallDo (tokenRequest
          ''grant_type=authorization_code&code=c&client_id=id&client_secret=secret'')])
      \<and> (CallExchange ''c'' \<in> set [CallHandler ?url, CallExchange ''c'',
        CallDo (tokenRequest
          ''grant_type=authorization_code&code=c&client_id=id&client_secret=secret'')]
        \<or> CallDo (tokenRequest []) \<in> set [CallHandler ?url, CallExchange ''c'',
        CallDo (tokenRequest
          ''grant_type=authorization_code&code=c&client_id=id&client_secret=secret'')])"
    using Token_test_equal by simp
  have c: "\<exists>aho h cd. AuthHandlerOpts (opts (testProvider ''s1'')) = Some aho \<and> Handler aho = Some h \<and>
         h (authCodeURL ?env (opts (testProvider ''s1'')) (state (testProvider ''s1'')) [])
           = (cd, state (testProvider ''s1''), None)"
    by (rule Token_state_mismatch [of "testProvider ''s1''" ?env, THEN conjunct2, THEN conjunct1,
          rule_format, OF b])
  have d: "AuthHandlerOpts (opts (testProvider ''s2'')) =
      Some \<lparr>Handler = Some (testHandler ''s2''), State = ''s1'', PKCEConfig = None\<rparr> \<and>
     Handler \<lparr>Handler = Some (testHandler ''s2''), State = ''s1'', PKCEConfig = None\<rparr>
       = Some (testHandler ''s2'') \<and>
     testHandler ''s2'' (authCodeURL ?env (opts (testProvider ''s2'')) (state (testProvider ''s2'')) [])
       = (''c'', ''s2'', None) \<and>
     ''s2'' \<noteq> state (testProvider ''s2'')"
    by (simp add: testProvider_def testOptions_def testHandler_def)
  have f: "Token ?env (testProvider ''s2'') =
     Some ((None, Some (ErrorsNew ''auth: state mismatch in 3-legged-OAuth flow'')),
           [CallHandler ?url])"
    using Token_state_mismatch [of "testProvider ''s2''" ?env, THEN conjunct1, rule_format, OF d]
    by (simp only: u)
  from a c f show ?thesis by (intro conjI)
qed

text \<open>
  C5, as the code has it. Once a response has arrived and its body has been read:
  a status outside 200..299 gives no token and the typed \<open>Error\<close> that carries the
  response and its body; so does a parsed response with a non-empty error code. A parsed
  response with a 2xx status, no error code and an empty access token gives no token and
  the plain error "auth: server response missing access_token", which is not the typed
  error. A token that is returned never has an empty value. In particular the JSON body
  \<open>{"access_token":"","token_type":"bearer"}\<close> with status 200, decoded by
  \<open>encoding/json\<close> into the struct with an empty access token, gives that plain error.
\<close>

theorem fetchToken_failure:
  assumes "AuthStyle c \<noteq> StyleUnknown"
    and "NewRequest env ''POST'' (TokenURL c) (Encode env (withClientInfo c v)) = Inr req0"
    and "client env c (withHeaders env c req0) = Inr r"
    and "readBody r = Inr body"
  shows "(StatusCode r < 200 \<or> StatusCode r > 299 \<longrightarrow>
           (\<exists>rt e. fst (fetchToken env c v) = (None, rt, Some (AuthError e))
                  \<and> Response e = r \<and> Body e = body))
       \<and> (\<forall>te tok rt. parseBody env r body = Inr (te, tok, rt) \<longrightarrow>
            (code te \<noteq> [] \<longrightarrow>
               fst (fetchToken env c v) = (None, rt, Some (AuthError te))
               \<and> Response te = r \<and> Body te = body)
          \<and> (200 \<le> StatusCode r \<and> StatusCode r \<le> 299 \<and> code te = [] \<and> Value tok = [] \<longrightarrow>
               fst (fetchToken env c v) =
                 (None, rt, Some (ErrorsNew ''auth: server response missing access_token''))))
       \<and> (\<forall>tok rt e. fst (fetchToken env c v) = (Some tok, rt, e) \<longrightarrow> Value tok \<noteq> [] \<and> e = None)
       \<and> (body = emptyTokenBody \<and> StatusCode r = 200 \<and>
          ParseMediaType env (Header_Get (Header r) ''Content-Type'') = ''application/json'' \<and>
          UnmarshalTokenJSON env emptyTokenBody =
            Inr \<lparr>AccessToken = [], TokenType = ''bearer'', RefreshToken = [], ExpiresIn = 0,
                 ErrorCode = [], ErrorDescription = [], ErrorURI = []\<rparr> \<longrightarrow>
          fst (fetchToken env c v) =
            (None, [], Some (ErrorsNew ''auth: server response missing access_token'')))"
proof -
  have ft: "fst (fetchToken env c v) = tokenFromResponse env r"
    using assms by (simp add: fetchToken_def Let_def)
  have p1: "StatusCode r < 200 \<or> StatusCode r > 299 \<longrightarrow>
           (\<exists>rt e. tokenFromResponse env r = (None, rt, Some (AuthError e))
                  \<and> Response e = r \<and> Body e = body)"
  proof
    assume fs: "StatusCode r < 200 \<or> StatusCode r > 299"
    show "\<exists>rt e. tokenFromResponse env r = (None, rt, Some (AuthError e))
                  \<and> Response e = r \<and> Body e = body"
    proof (cases "parseBody env r body")
      case (Inl err)
      from parseBody_failure [OF fs Inl] obtain e where
        "err = AuthError e" "Response e = r" "Body e = body" by blast
      with Inl assms(4) show ?thesis by (simp add: tokenFromResponse_def)
    next
      case (Inr p)
      obtain te tok rt where p: "p = (te, tok, rt)" by (cases p) auto
      from parseBody_Error [of env r body te tok rt] Inr p
      have "Response te = r" "Body te = body" by simp_all
      with Inr p assms(4) fs show ?thesis by (simp add: tokenFromResponse_def)
    qed
  qed
  have p2: "\<forall>te tok rt. parseBody env r body = Inr (te, tok, rt) \<longrightarrow>
            (code te \<noteq> [] \<longrightarrow>
               tokenFromResponse env r = (None, rt, Some (AuthError te))
               \<and> Response te = r \<and> Body te = body)
          \<and> (200 \<le> StatusCode r \<and> StatusCode r \<le> 299 \<and> code te = [] \<and> Value tok = [] \<longrightarrow>
               tokenFromResponse env r =
                 (None, rt, Some (ErrorsNew ''auth: server response missing access_token'')))"
    using assms(4)
    by (auto simp: tokenFromResponse_def dest: parseBody_Error)
  have p3: "\<forall>tok rt e. fst (fetchToken env c v) = (Some tok, rt, e) \<longrightarrow> Value tok \<noteq> [] \<and> e = None"
    using fetchToken_token by blast
  have p4: "body = emptyTokenBody \<and> StatusCode r = 200 \<and>
          ParseMediaType env (Header_Get (Header r) ''Content-Type'') = ''application/json'' \<and>
          UnmarshalTokenJSON env emptyTokenBody =
            Inr \<lparr>AccessToken = [], TokenType = ''bearer'', RefreshToken = [], ExpiresIn = 0,
                 ErrorCode = [], ErrorDescription = [], ErrorURI = []\<rparr> \<longrightarrow>
          tokenFromResponse env r =
            (None, [], Some (ErrorsNew ''auth: server response missing access_token''))"
    using assms(4)
    by (auto simp: tokenFromResponse_def parseBody_def Let_def expiry_def)
  from p1 p2 p3 p4 show ?thesis unfolding ft by blast
qed

theorem fetchToken_failure_witness:
  "fst (fetchToken (testEnv (testResponse 200 emptyTokenBody)) (testOptions ''s1'') []) =
     (None, [], Some (ErrorsNew ''auth: server response missing access_token''))
   \<and> carriesResponse
       (the (snd (snd (fst (fetchToken (testEnv (testResponse 400 goodTokenBody))
          (testOptions ''s1'') [])))))
       (testResponse 400 goodTokenBody)"
proof -
  let ?c = "testOptions ''s1''"
  let ?rq = "\<lparr>Method = ''POST'', URL = ''https://a.example/token'',
      ReqBody = ''client_id=id&client_secret=secret'', ReqHeader = [], BasicAuth = None\<rparr>"
  have h1: "AuthStyle ?c \<noteq> StyleUnknown" by (simp add: test_defs)
  have h2: "NewRequest (testEnv r) ''POST'' (TokenURL ?c)
      (Encode (testEnv r) (withClientInfo ?c [])) = Inr ?rq" for r
    by (simp add: test_defs withClientInfo_def)
  have h3: "client (testEnv r) ?c (withHeaders (testEnv r) ?c ?rq) = Inr r" for r
    by (simp add: test_defs client_def)
  have h4: "readBody (testResponse st emptyTokenBody) = Inr emptyTokenBody"
    "readBody (testResponse st goodTokenBody) = Inr goodTokenBody" for st
    by (simp_all add: test_defs readBody_def)
  have a: "fst (fetchToken (testEnv (testResponse 200 emptyTokenBody)) ?c []) =
     (None, [], Some (ErrorsNew ''auth: server response missing access_token''))"
    using fetchToken_failure [OF h1 h2 h3 h4(1) [of 200]]
    by (simp add: test_defs Header_Get_def)
  from fetchToken_failure [OF h1 h2 h3 h4(2) [of 400]]
  obtain rt e where
    "fst (fetchToken (testEnv (testResponse 400 goodTokenBody)) ?c []) = (None, rt, Some (AuthError e))"
    "Response e = testResponse 400 goodTokenBody"
    by (auto simp: testResponse_def)
  hence b: "carriesResponse
       (the (snd (snd (fst (fetchToken (testEnv (testResponse 400 goodTokenBody)) ?c [])))))
       (testResponse 400 goodTokenBody)"
    by simp
  from a b show ?thesis by blast
qed

text \<open>
  C5 as the specification words it fails: the response below is parsed, leaves the access
  token empty, and the error returned is not the typed error that carries the response.
\<close>

theorem fetchToken_missing_token_counterexample:
  "testDecode emptyTokenBody =
     Inr \<lparr>AccessToken = [], TokenType = ''bearer'', RefreshToken = [], ExpiresIn = 0,
          ErrorCode = [], ErrorDescription = [], ErrorURI = []\<rparr>
   \<and> fst (fetchToken (testEnv (testResponse 200 emptyTokenBody)) (testOptions ''s1'') []) =
       (None, [], Some (ErrorsNew ''auth: server response missing access_token''))
   \<and> \<not> carriesResponse (ErrorsNew ''auth: server response missing access_token'')
         (testResponse 200 emptyTokenBody)"
  by (simp add: fetchToken_test_empty) (simp add: testDecode_def)

section \<open>Properties of the mapping engine\<close>

subsection \<open>Paths\<close>

lemma length_zeroFields [simp]: "length (zeroFields fs) = length fs"
proof (induction fs)
  case (Cons f fs)
  then show ?case by (cases f) simp
qed simp

lemma length_fieldsOf [simp]: "length (fieldsOf fs g) = length fs"
  by (cases g) auto

lemma fieldsOf_StructG [simp]: "length vs = length fs \<Longrightarrow> fieldsOf fs (StructG vs) = vs"
  by simp

lemma fst_target [simp]: "fst (target b T v) = targetType b T"
  by (induction b T v rule: target.induct) auto

lemma target_retarget [simp]: "target b T (retarget b T x) = (targetType b T, x)"
  by (induction b T x rule: retarget.induct) auto

lemma structFields_targetType:
  "structFields T = Some (b, sub) \<Longrightarrow> \<exists>n. targetType b T = TStruct n sub"
  by (induction T rule: structFields.induct) auto

lemma fieldEntries_shape:
  "(m, p) \<in> set (fieldEntries i0 fs) \<Longrightarrow>
   \<exists>j b p'. p = (i0 + j, b) # p' \<and> j < length fs \<and> validPath (targetType b (FType (fs ! j))) p'"
proof (induction i0 fs arbitrary: m p rule: fieldEntries.induct)
  case (1 i)
  then show ?case by simp
next
  case (2 i f fs)
  have later: "\<exists>j b p'. p = (i + j, b) # p' \<and> j < length (f # fs)
      \<and> validPath (targetType b (FType ((f # fs) ! j))) p'"
    if "(m, p) \<in> set (fieldEntries (Suc i) fs)"
       "\<And>m p. (m, p) \<in> set (fieldEntries (Suc i) fs) \<Longrightarrow>
          \<exists>j b p'. p = (Suc i + j, b) # p' \<and> j < length fs \<and> validPath (targetType b (FType (fs ! j))) p'"
  proof -
    from that obtain j b p' where "p = (Suc i + j, b) # p'" "j < length fs"
      "validPath (targetType b (FType (fs ! j))) p'" by blast
    then show ?thesis by (intro exI [of _ "Suc j"] exI [of _ b] exI [of _ p']) simp
  qed
  show ?case
  proof (cases "\<not> exported (FName f) \<or> FTag f = Some keyTag")
    case True
    show ?thesis by (rule later) (use True "2.prems" "2.IH" in auto)
  next
    case skip: False
    show ?thesis
    proof (cases "structFields (FType f)")
      case None
      with skip "2.prems" have "(m, p) = (propName f, [(i, False)]) \<or> (m, p) \<in> set (fieldEntries (Suc i) fs)"
        by auto
      then show ?thesis
      proof
        assume "(m, p) = (propName f, [(i, False)])"
        then show ?thesis by (intro exI [of _ 0] exI [of _ False] exI [of _ "[]"]) simp
      next
        assume a: "(m, p) \<in> set (fieldEntries (Suc i) fs)"
        show ?thesis by (rule later [OF a]) (use "2.IH" skip None in auto)
      qed
    next
      case (Some bs)
      obtain isptr sub where bs: "bs = (isptr, sub)" by (cases bs)
      from structFields_targetType Some bs obtain n' where
        tt: "targetType isptr (FType f) = TStruct n' sub" by blast
      have nested: "\<exists>j b p'. p = (i + j, b) # p' \<and> j < length (f # fs)
          \<and> validPath (targetType b (FType ((f # fs) ! j))) p'"
        if "p = (i, isptr) # q" "(m', q) \<in> set (fieldEntries 0 sub)" for q m'
      proof -
        have "\<exists>j b p'. q = (0 + j, b) # p' \<and> j < length sub
            \<and> validPath (targetType b (FType (sub ! j))) p'"
        proof (cases "FAnonymous f \<and> FTag f = None")
          case True
          with "2.IH"(3) skip Some bs that(2) show ?thesis by blast
        next
          case False
          with "2.IH"(4) skip Some bs that(2) show ?thesis by blast
        qed
        then obtain j b p' where "q = (j, b) # p'" "j < length sub"
          "validPath (targetType b (FType (sub ! j))) p'" by auto
        with tt that(1) show ?thesis
          by (intro exI [of _ 0] exI [of _ isptr] exI [of _ q]) simp
      qed
      from "2.prems" skip Some bs
      consider (own) "(m, p) = (propName f, [(i, False)])"
        | (sub) q m' where "p = (i, isptr) # q" "(m', q) \<in> set (fieldEntries 0 sub)"
        | (rest) "(m, p) \<in> set (fieldEntries (Suc i) fs)"
        by (auto split: if_splits)
      then show ?thesis
      proof cases
        case own
        then show ?thesis by (intro exI [of _ 0] exI [of _ False] exI [of _ "[]"]) simp
      next
        case sub
        then show ?thesis by (rule nested)
      next
        case rest
        show ?thesis by (rule later [OF rest]) (use "2.IH" skip Some bs in auto)
      qed
    qed
  qed
qed

lemma fieldEntries_valid:
  "(m, p) \<in> set (fieldEntries 0 fs) \<Longrightarrow> validPath (TStruct n fs) p"
  by (drule fieldEntries_shape) auto

lemma getPath_putPath:
  "validPath T p \<Longrightarrow> getPath T (putPath T g p x) p = (fst (getPath T g p), x)"
proof (induction T g p x rule: putPath.induct)
  case (2 n fs g i b p x)
  obtain T' g' where t: "target b (FType (fs ! i)) (fieldsOf fs g ! i) = (T', g')"
    by (cases "target b (FType (fs ! i)) (fieldsOf fs g ! i)")
  have T': "T' = targetType b (FType (fs ! i))"
    using t fst_target [of b "FType (fs ! i)" "fieldsOf fs g ! i"] by simp
  from "2.prems" have i: "i < length fs" and v: "validPath T' p" by (auto simp: T')
  from "2.IH" [OF i t [symmetric] v]
  have ih: "getPath T' (putPath T' g' p x) p = (fst (getPath T' g' p), x)" .
  from i t ih T' show ?case by simp
qed auto


lemma loadProps_single:
  assumes "map_of (fieldEntries 0 fs) nm = Some path"
    and "getPath (TStruct n fs) g path = (sT, cur)"
  shows "loadProps n fs g [Property nm v ni] =
           (putPath (TStruct n fs) g path (fst (coerce n nm sT cur v)), snd (coerce n nm sT cur v))"
  using assms by (simp add: split_beta)

lemma LoadStruct_single:
  assumes "wellFormed (TStruct n fs)"
    and "map_of (fieldEntries 0 fs) nm = Some path"
    and "getPath (TStruct n fs) g path = (sT, cur)"
  shows "LoadStruct (TStruct n fs) g [Property nm v ni] =
           (putPath (TStruct n fs) g path (fst (coerce n nm sT cur v)),
            if snd (coerce n nm sT cur v) = [] then None
            else Some (MismatchError (snd (coerce n nm sT cur v))))"
  using assms(1) loadProps_single [OF assms(2,3)]
  by (simp add: LoadStruct_def loadEntityToStruct_def assignKey_def del: loadProps.simps)

lemma slot_after_put:
  assumes "map_of (fieldEntries 0 fs) nm = Some path"
    and "getPath (TStruct n fs) g path = (sT, cur)"
  shows "getPath (TStruct n fs) (putPath (TStruct n fs) g path x) path = (sT, x)"
proof -
  from assms(1) have "(nm, path) \<in> set (fieldEntries 0 fs)" by (rule map_of_SomeD)
  then have "validPath (TStruct n fs) path" by (rule fieldEntries_valid)
  from getPath_putPath [OF this] assms(2) show ?thesis by simp
qed

lemma LoadStruct_slot:
  assumes "wellFormed (TStruct n fs)"
    and "map_of (fieldEntries 0 fs) nm = Some path"
    and "getPath (TStruct n fs) g path = (sT, cur)"
  shows "getPath (TStruct n fs) (fst (LoadStruct (TStruct n fs) g [Property nm v ni])) path =
           (sT, fst (coerce n nm sT cur v))"
    and "snd (LoadStruct (TStruct n fs) g [Property nm v ni]) =
           (if snd (coerce n nm sT cur v) = [] then None
            else Some (MismatchError (snd (coerce n nm sT cur v))))"
  using LoadStruct_single [OF assms] slot_after_put [OF assms(2,3)] by simp_all






lemma fieldEntries_nested_mem:
  "i < length fs \<Longrightarrow> exported (FName (fs ! i)) \<Longrightarrow> FTag (fs ! i) \<noteq> Some keyTag \<Longrightarrow>
   structFields (FType (fs ! i)) = Some (isptr, sub) \<Longrightarrow> (m, p) \<in> set (fieldEntries 0 sub) \<Longrightarrow>
   ((if FAnonymous (fs ! i) \<and> FTag (fs ! i) = None then m else propName (fs ! i) @ ''.'' @ m),
    (i0 + i, isptr) # p) \<in> set (fieldEntries i0 fs)"
proof (induction fs arbitrary: i i0)
  case Nil
  then show ?case by simp
next
  case (Cons f fs)
  show ?case
  proof (cases i)
    case 0
    with Cons.prems show ?thesis by (auto simp: image_iff intro!: bexI [of _ "(m, p)"])
  next
    case (Suc j)
    with Cons.prems Cons.IH [of j "Suc i0"]
    have "((if FAnonymous (fs ! j) \<and> FTag (fs ! j) = None then m
            else propName (fs ! j) @ ''.'' @ m), (Suc i0 + j, isptr) # p)
          \<in> set (fieldEntries (Suc i0) fs)" by simp
    with Suc show ?thesis by (auto split: option.splits)
  qed
qed

subsection \<open>The model on the tests of load_test.go\<close>

text \<open>
  The expectations of the tests, computed by the model. In a protocol-buffer entity the
  properties are a Go map, so every order of the property list is an input; the tests
  whose result could depend on it are run in both orders.
\<close>

lemmas type_defs =
  Simple_def SimpleWithTag_def NestedSimpleWithTag_def SimpleTwoFields_def
  NestedSimpleAnonymous_def NestedSimple1_def BDotB_def ABDotB_def MultiAnonymous_def
  WithKey_def NestedWithKey_def NestedSimple2_def NestedStructPtrs_def Stringer_def
  withTypedInterface_def withUntypedInterface_def LoadNullS_def SliceOfString_def
  KeyLoader6_def KeyLoader7_def KeyLoader8_def PtrToS_def StructOfS_def TimeHolder_def DateHolder_def
  DateTimeHolder_def ClockHolder_def plain_def tagged_def embedded_def entry_def
  NestedSimple_def NotPLSKeyLoader_def
  propName_def keyTag_def

lemmas load_defs = LoadStruct_def loadEntityToStruct_def assignKey_def coerceLeaf_def

lemmas dispatch_defs =
  loadEntity_def loadKeyPhase_def reported_def noCapabilities_def reflectKey_def

lemma nested_legacy:
  "LoadStruct NestedSimple1 (zero NestedSimple1)
     [entry ''X'' (StringV ''two''), entry ''A.I'' (IntV 2)]
     = (StructG [StructG [IntG 2], StringG ''two''], None)"
  by (simp add: load_defs type_defs)

lemma nested_legacy2:
  "LoadStruct NestedSimple1 (zero NestedSimple1)
     [entry ''A.I'' (IntV 2), entry ''X'' (StringV ''two'')]
     = (StructG [StructG [IntG 2], StringG ''two''], None)"
  by (simp add: load_defs type_defs)

lemma dotted_tag:
  "LoadStruct ABDotB (zero ABDotB) [entry ''A.B.B'' (StringV ''bb'')]
     = (StructG [StructG [StringG ''bb'']], None)"
  by (simp add: load_defs type_defs)

lemma already_populated:
  "LoadStruct NestedStructPtrs populatedPtrs
     [entry ''S'' Null, entry ''SS'' (StringV ''ss hello''), entry ''Nest'' Null,
      entry ''TwiceNest'' (EntityV None
        [entry ''A'' Null, entry ''I'' (IntV 2), entry ''U'' (StringV ''replaced'')]),
      entry ''I'' (IntV 5)]
   = (StructG [PtrG (Some (StructG [StringG [], StringG ''ss hello''])), PtrG None,
        PtrG (Some (StructG [PtrG None, IntG 2, IfaceG (StringV ''replaced'')])), IntG 5],
      None)"
  by (simp add: load_defs type_defs populatedPtrs_def)

lemma nested_with_tag:
  "LoadStruct NestedSimpleWithTag (zero NestedSimpleWithTag) [entry ''AA.II'' (IntV 2)]
     = (StructG [StructG [IntG 2]], None)"
  by (simp add: load_defs type_defs)

lemma nested_anonymous:
  "LoadStruct NestedSimpleAnonymous (zero NestedSimpleAnonymous)
     [entry ''X'' (StringV ''two''), entry ''I'' (IntV 2)]
     = (StructG [StructG [IntG 2], StringG ''two''], None)"
  by (simp add: load_defs type_defs)

lemma nested_multiple_anonymous:
  "LoadStruct MultiAnonymous (zero MultiAnonymous)
     [entry ''I'' (IntV 3), entry ''S'' (StringV ''S''), entry ''SS'' (StringV ''s''),
      entry ''X'' (StringV ''s'')]
     = (StructG [StructG [IntG 3], StructG [StringG ''S'', StringG ''s''], StringG ''s''], None)"
  by (simp add: load_defs type_defs)

lemma nested_basic:
  "LoadStruct NestedSimple (zero NestedSimple)
     [entry ''A'' (EntityV None [entry ''I'' (IntV 3)]), entry ''I'' (IntV 10)]
     = (StructG [StructG [IntG 3], IntG 10], None)"
  by (simp add: load_defs type_defs)

lemma nested_entity_with_invalid_key:
  "loadEntity noCapabilities NestedWithKey (zero NestedWithKey)
     \<lparr>Key = Some testKey0,
      Properties = [entry ''Y'' (StringV ''yyy''),
                    entry ''N'' (EntityV (Some invalidKey)
                      [entry ''X'' (StringV ''two''), entry ''I'' (IntV 2)])]\<rparr>
     = Some (StructG [StringG ''yyy'', StructG [StringG ''two'', IntG 2, KeyG (Some invalidKey)]],
             None)"
  by (simp add: dispatch_defs load_defs type_defs)

lemma key_loader_with_unmatched_properties:
  "loadEntity noCapabilities NotPLSKeyLoader (zero NotPLSKeyLoader)
     \<lparr>Key = Some testKey0,
      Properties = [entry ''A'' (StringV ''hello''), entry ''B'' (StringV ''unmatched'')]\<rparr>
     = Some (StructG [StringG ''hello'', KeyG (Some testKey0)],
             Some (MismatchError
               [ErrFieldMismatch ''datastore.NotPLSKeyLoader'' ''B'' ''no such struct field'']))"
  by (simp add: dispatch_defs load_defs type_defs)

lemma load_null_test:
  "LoadStruct LoadNullS gotS
     [entry ''I'' Null, entry ''F'' Null, entry ''S'' Null, entry ''B'' Null, entry ''A'' Null]
     = (StructG [IntG 0, FloatG 0, StringG [], BoolG False, SliceG [StringG []]], None)"
  by (simp add: load_defs type_defs gotS_def)


subsection \<open>The claims\<close>

text \<open>
  C1. (On the model of the Capability Dispatcher.) For a record type with both custom
  load and custom key assignment: whenever custom load returns, with no error, with a
  field-mismatch error or with any other error, \<open>LoadKey\<close> is called on the record as
  custom load left it, with the key of the entity, and the record returned is the one
  \<open>LoadKey\<close> returns. When both report a field mismatch the load error is the one
  reported; a field mismatch of the key is reported when load reported no field
  mismatch.
\<close>

theorem loadEntity_custom:
  assumes "customLoad caps = Some ld"
    and "customLoadKey caps = Some lk"
    and "ld g (Properties ent) = Some (g1, lerr)"
  shows "loadEntity caps T g ent =
           (case lk g1 (Key ent) of
              None \<Rightarrow> None
            | Some (g2, kerr) \<Rightarrow> Some (g2, reported lerr kerr))
       \<and> (\<forall>g2 kerr. lk g1 (Key ent) = Some (g2, kerr) \<and> isMismatch lerr \<and> \<not> isFatal kerr \<longrightarrow>
            loadEntity caps T g ent = Some (g2, lerr))
       \<and> (\<forall>g2 kerr. lk g1 (Key ent) = Some (g2, kerr) \<and> lerr = None \<longrightarrow>
            loadEntity caps T g ent = Some (g2, kerr))
       \<and> (\<forall>g2 kerr. lk g1 (Key ent) = Some (g2, kerr) \<and> isMismatch kerr \<and> \<not> isMismatch lerr \<longrightarrow>
            loadEntity caps T g ent = Some (g2, kerr))"
proof -
  have a: "loadEntity caps T g ent =
           (case lk g1 (Key ent) of
              None \<Rightarrow> None
            | Some (g2, kerr) \<Rightarrow> Some (g2, reported lerr kerr))"
    using assms by (simp add: loadEntity_def loadKeyPhase_def)
  have b: "isMismatch kerr \<Longrightarrow> \<not> isFatal kerr \<and> kerr \<noteq> None" for kerr
    by (cases kerr rule: isMismatch.cases) auto
  have c: "\<not> isFatal (None :: LoadError option)" "\<not> isMismatch (None :: LoadError option)"
    by simp_all
  show ?thesis
    unfolding a using b c by (auto simp: reported_def)
qed

theorem loadEntity_custom_witness:
  "loadEntity \<lparr>customLoad = Some KeyLoader6_Load, customLoadKey = Some KeyLoader6_LoadKey\<rparr>
     KeyLoader6 (zero KeyLoader6) testEntity
     = Some (StructG [StringG ''hello'', StringG [], KeyG (Some testKey0)],
             Some (MismatchError
               [ErrFieldMismatch ''*datastore.KeyLoader6'' ''B'' ''no value found'']))
   \<and> loadEntity \<lparr>customLoad = Some KeyLoader7_Load, customLoadKey = Some KeyLoader7_LoadKey\<rparr>
       KeyLoader7 (zero KeyLoader7) testEntity
     = Some (StructG [StringG ''hello'', KeyG None],
             Some (MismatchError
               [ErrFieldMismatch ''*datastore.KeyLoader7'' ''key'' ''no value found'']))
   \<and> loadEntity \<lparr>customLoad = Some KeyLoader8_Load, customLoadKey = Some KeyLoader8_LoadKey\<rparr>
       KeyLoader8 (zero KeyLoader8) testEntity
     = Some (StructG [StringG ''hello'', StringG [], KeyG None],
             Some (MismatchError
               [ErrFieldMismatch ''*datastore.KeyLoader8'' ''key'' ''no value found'']))
   \<and> loadEntity \<lparr>customLoad = Some KeyLoader6_Load, customLoadKey = Some KeyLoader7_LoadKey\<rparr>
       KeyLoader6 (zero KeyLoader6) testEntity
     = Some (StructG [StringG ''hello'', StringG [], KeyG None],
             Some (MismatchError
               [ErrFieldMismatch ''*datastore.KeyLoader6'' ''B'' ''no value found'']))"
proof -
  let ?e6 = "Some (MismatchError
               [ErrFieldMismatch ''*datastore.KeyLoader6'' ''B'' ''no value found''])"
  let ?e7 = "Some (MismatchError
               [ErrFieldMismatch ''*datastore.KeyLoader7'' ''key'' ''no value found''])"
  let ?e8 = "Some (MismatchError
               [ErrFieldMismatch ''*datastore.KeyLoader8'' ''key'' ''no value found''])"
  have l6: "KeyLoader6_Load (zero KeyLoader6) (Properties testEntity)
      = Some (StructG [StringG ''hello'', StringG [], KeyG None], ?e6)"
    by (simp add: KeyLoader6_Load_def testEntity_def type_defs)
  have l7: "KeyLoader7_Load (zero KeyLoader7) (Properties testEntity)
      = Some (StructG [StringG ''hello'', KeyG None], None)"
    by (simp add: KeyLoader7_Load_def testEntity_def type_defs)
  have l8: "KeyLoader8_Load (zero KeyLoader8) (Properties testEntity)
      = Some (StructG [StringG ''hello'', StringG [], KeyG None],
              Some (OtherError ''custom load error''))"
    by (simp add: KeyLoader8_Load_def testEntity_def type_defs)
  define c66 where
    "c66 = \<lparr>customLoad = Some KeyLoader6_Load, customLoadKey = Some KeyLoader6_LoadKey\<rparr>"
  define c77 where
    "c77 = \<lparr>customLoad = Some KeyLoader7_Load, customLoadKey = Some KeyLoader7_LoadKey\<rparr>"
  define c88 where
    "c88 = \<lparr>customLoad = Some KeyLoader8_Load, customLoadKey = Some KeyLoader8_LoadKey\<rparr>"
  define c67 where
    "c67 = \<lparr>customLoad = Some KeyLoader6_Load, customLoadKey = Some KeyLoader7_LoadKey\<rparr>"
  have c66: "customLoad c66 = Some KeyLoader6_Load" "customLoadKey c66 = Some KeyLoader6_LoadKey"
    by (simp_all add: c66_def)
  have c77: "customLoad c77 = Some KeyLoader7_Load" "customLoadKey c77 = Some KeyLoader7_LoadKey"
    by (simp_all add: c77_def)
  have c88: "customLoad c88 = Some KeyLoader8_Load" "customLoadKey c88 = Some KeyLoader8_LoadKey"
    by (simp_all add: c88_def)
  have c67: "customLoad c67 = Some KeyLoader6_Load" "customLoadKey c67 = Some KeyLoader7_LoadKey"
    by (simp_all add: c67_def)
  have a: "loadEntity c66 KeyLoader6 (zero KeyLoader6) testEntity
     = Some (StructG [StringG ''hello'', StringG [], KeyG (Some testKey0)], ?e6)"
    using loadEntity_custom [OF c66 l6, THEN conjunct1, of KeyLoader6]
    by (simp add: KeyLoader6_LoadKey_def testEntity_def reported_def)
  have b: "loadEntity c77 KeyLoader7 (zero KeyLoader7) testEntity
     = Some (StructG [StringG ''hello'', KeyG None], ?e7)"
    using loadEntity_custom [OF c77 l7, THEN conjunct1, of KeyLoader7]
    by (simp add: KeyLoader7_LoadKey_def testEntity_def reported_def)
  have c: "loadEntity c88 KeyLoader8 (zero KeyLoader8) testEntity
     = Some (StructG [StringG ''hello'', StringG [], KeyG None], ?e8)"
    using loadEntity_custom [OF c88 l8, THEN conjunct1, of KeyLoader8]
    by (simp add: KeyLoader8_LoadKey_def testEntity_def reported_def)
  have d: "loadEntity c67 KeyLoader6 (zero KeyLoader6) testEntity
     = Some (StructG [StringG ''hello'', StringG [], KeyG None], ?e6)"
    using loadEntity_custom [OF c67 l6, THEN conjunct1, of KeyLoader6]
    by (simp add: KeyLoader7_LoadKey_def testEntity_def reported_def)
  from a b c d show ?thesis unfolding c66_def c77_def c88_def c67_def by blast
qed











text \<open>
  C8. (On the model of the Field Path Resolver and the Load Orchestrator.) For a
  struct-typed field (or pointer to struct) with property name \<open>A\<close>, every property name
  \<open>m\<close> of its type, itself possibly dotted by a tag or by further nesting, is reached
  from the parent as \<open>A.m\<close>, one step deeper, and a value loaded under \<open>A.m\<close> lands in
  that field. The entity with \<open>A.I = 2\<close> and \<open>X = "two"\<close> loads into
  \<open>NestedSimple1\<close> as \<open>{A:{I:2}, X:"two"}\<close> in either order of the properties, and
  the property \<open>A.B.B\<close> reaches the field tagged \<open>B.B\<close> under \<open>A\<close>.
\<close>

theorem dotted_routing:
  assumes "wellFormed (TStruct n fs)"
    and "i < length fs"
    and "exported (FName (fs ! i))" and "FTag (fs ! i) \<noteq> Some keyTag"
    and "\<not> (FAnonymous (fs ! i) \<and> FTag (fs ! i) = None)"
    and "structFields (FType (fs ! i)) = Some (isptr, sub)"
    and "map_of (fieldEntries 0 sub) m = Some p"
  shows "map_of (fieldEntries 0 fs) (propName (fs ! i) @ ''.'' @ m) = Some ((i, isptr) # p)
       \<and> getPath (TStruct n fs)
           (fst (LoadStruct (TStruct n fs) g [Property (propName (fs ! i) @ ''.'' @ m) v ni]))
           ((i, isptr) # p)
         = (fst (getPath (TStruct n fs) g ((i, isptr) # p)),
            fst (coerce n (propName (fs ! i) @ ''.'' @ m)
                   (fst (getPath (TStruct n fs) g ((i, isptr) # p)))
                   (snd (getPath (TStruct n fs) g ((i, isptr) # p))) v))
       \<and> LoadStruct NestedSimple1 (zero NestedSimple1)
            [entry ''A.I'' (IntV 2), entry ''X'' (StringV ''two'')]
           = (StructG [StructG [IntG 2], StringG ''two''], None)
       \<and> LoadStruct NestedSimple1 (zero NestedSimple1)
            [entry ''X'' (StringV ''two''), entry ''A.I'' (IntV 2)]
           = (StructG [StructG [IntG 2], StringG ''two''], None)
       \<and> map_of (fieldEntries 0 [plain ''A'' BDotB]) ''A.B.B'' = Some [(0, False), (0, False)]
       \<and> LoadStruct ABDotB (zero ABDotB) [entry ''A.B.B'' (StringV ''bb'')]
           = (StructG [StructG [StringG ''bb'']], None)"
proof -
  from assms(7) have "(m, p) \<in> set (fieldEntries 0 sub)" by (rule map_of_SomeD)
  from fieldEntries_nested_mem [OF assms(2,3,4,6) this, of 0] assms(5)
  have mem: "(propName (fs ! i) @ ''.'' @ m, (i, isptr) # p) \<in> set (fieldEntries 0 fs)"
    by auto
  from assms(1) have "distinct (map fst (fieldEntries 0 fs))" by simp
  with mem have a: "map_of (fieldEntries 0 fs) (propName (fs ! i) @ ''.'' @ m)
      = Some ((i, isptr) # p)" by simp
  have b: "getPath (TStruct n fs)
           (fst (LoadStruct (TStruct n fs) g [Property (propName (fs ! i) @ ''.'' @ m) v ni]))
           ((i, isptr) # p)
         = (fst (getPath (TStruct n fs) g ((i, isptr) # p)),
            fst (coerce n (propName (fs ! i) @ ''.'' @ m)
                   (fst (getPath (TStruct n fs) g ((i, isptr) # p)))
                   (snd (getPath (TStruct n fs) g ((i, isptr) # p))) v))"
    by (rule LoadStruct_slot(1) [OF assms(1) a]) simp
  have c: "map_of (fieldEntries 0 [plain ''A'' BDotB]) ''A.B.B'' = Some [(0, False), (0, False)]"
    by (simp add: type_defs)
  from a b c nested_legacy nested_legacy2 dotted_tag show ?thesis by blast
qed

theorem dotted_routing_witness:
  "map_of (fieldEntries 0 [plain ''A'' Simple, plain ''X'' TString]) ''A.I''
     = Some [(0, False), (0, False)]
   \<and> getPath NestedSimple1
        (fst (LoadStruct NestedSimple1 (zero NestedSimple1) [entry ''A.I'' (IntV 2)]))
        [(0, False), (0, False)]
     = (TInt, IntG 2)"
proof -
  define fs where "fs = [plain ''A'' Simple, plain ''X'' TString]"
  have N: "NestedSimple1 = TStruct ''datastore.NestedSimple1'' fs"
    by (simp add: NestedSimple1_def fs_def)
  have wf: "wellFormed (TStruct ''datastore.NestedSimple1'' fs)" by (simp add: fs_def type_defs)
  have i: "0 < length fs" "exported (FName (fs ! 0))" "FTag (fs ! 0) \<noteq> Some keyTag"
    "\<not> (FAnonymous (fs ! 0) \<and> FTag (fs ! 0) = None)"
    "structFields (FType (fs ! 0)) = Some (False, [plain ''I'' TInt])"
    by (simp_all add: fs_def type_defs)
  have m: "map_of (fieldEntries 0 [plain ''I'' TInt]) ''I'' = Some [(0, False)]"
    by (simp add: type_defs)
  have pn: "propName (fs ! 0) @ ''.'' @ ''I'' = ''A.I''" by (simp add: fs_def type_defs)
  have gp: "getPath (TStruct ''datastore.NestedSimple1'' fs)
      (zero (TStruct ''datastore.NestedSimple1'' fs)) [(0, False), (0, False)] = (TInt, IntG 0)"
    by (simp add: fs_def type_defs)
  have co: "coerce ''datastore.NestedSimple1'' ''A.I'' TInt (IntG 0) (IntV 2) = (IntG 2, [])"
    by (simp add: coerceLeaf_def)
  note r = dotted_routing [OF wf i m,
      of "zero (TStruct ''datastore.NestedSimple1'' fs)" "IntV 2" False]
  from r [THEN conjunct1]
  have a: "map_of (fieldEntries 0 fs) ''A.I'' = Some [(0, False), (0, False)]"
    by (simp only: pn)
  have b: "getPath NestedSimple1
        (fst (LoadStruct NestedSimple1 (zero NestedSimple1) [entry ''A.I'' (IntV 2)]))
        [(0, False), (0, False)]
     = (TInt, IntG 2)"
    using r [THEN conjunct2, THEN conjunct1]
    unfolding N entry_def pn gp fst_conv snd_conv co .
  from a b show ?thesis unfolding fs_def by (rule conjI)
qed



end
